theory Spec2Isabelle
  imports Main "HOL-Library.AList"
begin

section \<open>JavaScript values\<close>

text \<open>
  The synchronisation core of \<^verbatim>\<open>src/App.jsx\<close> works on untyped data: payloads
  parsed from the durable store, messages cloned from the room channel. The values are
  modelled as they are at run time, so that a missing or wrongly typed field is an input
  of the model and not excluded by a type.

  Numbers are the integers (all timestamps are milliseconds, \<^verbatim>\<open>Date.now()\<close>) and NaN;
  fractions and the infinities are outside the model. An object is the list of its own
  enumerable properties in enumeration order; a property that is set keeps its place when
  the key exists and goes to the end otherwise (\<open>AList.update\<close>), \<^verbatim>\<open>delete\<close> is
  \<open>AList.delete\<close>. Keys that are array indices, which JavaScript enumerates first, get no
  special place; user ids are not of that form.
\<close>

datatype jsnum = Num int | NaN

datatype jsval =
    JUndefined
  | JNull
  | JBool bool
  | JNumber jsnum
  | JString string
  | JObject "(string \<times> jsval) list"
  | JArray "jsval list"

datatype js_error = TypeError | SyntaxError | ReferenceError

text \<open>
  What the code uses of the JavaScript runtime and does not define itself is a parameter:
  \<^verbatim>\<open>JSON.parse\<close> (\<open>None\<close> when it throws SyntaxError), \<^verbatim>\<open>JSON.stringify\<close>, the
  conversion of a string, object or array to a number (in \<^verbatim>\<open>now - entry.lastSeen\<close>) and
  of a value that is not a string to a property key (in \<^verbatim>\<open>next[userId]\<close>), both taken
  to return; whether \<^verbatim>\<open>window\<close> is defined, and whether constructing a
  \<^verbatim>\<open>BroadcastChannel\<close> of a given name succeeds. \<^verbatim>\<open>localStorage.setItem\<close> is taken
  to succeed. The clock is an argument of every function that reads it: \<^verbatim>\<open>Date.now()\<close>
  gives one reading within a call, except where a handler reads it for \<^verbatim>\<open>lastSeen\<close>
  and the pruning reads it again.
\<close>

record runtime =
  JSON_parse :: "string \<Rightarrow> jsval option"
  JSON_stringify :: "jsval \<Rightarrow> string"
  ToNumber :: "jsval \<Rightarrow> jsnum"
  ToPropertyKey :: "jsval \<Rightarrow> string"
  window_defined :: bool
  BroadcastChannel_ok :: "string \<Rightarrow> bool"

text \<open>Truthiness: \<^verbatim>\<open>!v\<close> is \<open>\<not> truthy v\<close>.\<close>

fun truthy :: "jsval \<Rightarrow> bool" where
  "truthy JUndefined = False"
| "truthy JNull = False"
| "truthy (JBool b) = b"
| "truthy (JNumber (Num n)) = (n \<noteq> 0)"
| "truthy (JNumber NaN) = False"
| "truthy (JString s) = (s \<noteq> [])"
| "truthy (JObject ps) = True"
| "truthy (JArray xs) = True"

fun nullish :: "jsval \<Rightarrow> bool" where
  "nullish JUndefined = True"
| "nullish JNull = True"
| "nullish v = False"

text \<open>\<^verbatim>\<open>a ?? b\<close>\<close>

definition coalesce :: "jsval \<Rightarrow> jsval \<Rightarrow> jsval" where
  "coalesce a b = (if nullish a then b else a)"



text \<open>Decimal index keys of arrays and strings.\<close>

fun string_of_nat :: "nat \<Rightarrow> string" where
  "string_of_nat n =
     (if n < 10 then [''0123456789'' ! n]
      else string_of_nat (n div 10) @ [''0123456789'' ! (n mod 10)])"

definition index_keys :: "nat \<Rightarrow> string list" where
  "index_keys n = map string_of_nat [0..<n]"

text \<open>
  The own enumerable string-keyed properties of a value, as \<^verbatim>\<open>Object.entries\<close> and the
  spread \<^verbatim>\<open>{...v}\<close> list them: the elements of an array and the characters of a string
  under their indices, nothing for the other primitives (and for \<^verbatim>\<open>null\<close> and
  \<^verbatim>\<open>undefined\<close> in a spread; \<^verbatim>\<open>Object.entries\<close> is only called behind \<^verbatim>\<open>?? {}\<close>).
\<close>

fun own_props :: "jsval \<Rightarrow> (string \<times> jsval) list" where
  "own_props (JObject ps) = ps"
| "own_props (JArray xs) = zip (index_keys (length xs)) xs"
| "own_props (JString s) = zip (index_keys (length s)) (map (\<lambda>c. JString [c]) s)"
| "own_props v = []"

text \<open>
  Reading a property. The code reads only the names \<^verbatim>\<open>type\<close>, \<^verbatim>\<open>text\<close>,
  \<^verbatim>\<open>updatedAt\<close>, \<^verbatim>\<open>user\<close>, \<^verbatim>\<open>action\<close>, \<^verbatim>\<open>cursor\<close>, \<^verbatim>\<open>id\<close>, \<^verbatim>\<open>lastSeen\<close> and
  user ids, so inherited properties (\<^verbatim>\<open>length\<close>, methods) are not modelled.
  \<open>get\<close> is the read on a value known not to be nullish, \<open>member_of\<close> is \<^verbatim>\<open>v.name\<close>, which
  throws on \<^verbatim>\<open>null\<close> and \<^verbatim>\<open>undefined\<close>, and \<open>opt_member\<close> is \<^verbatim>\<open>v?.name\<close>.
\<close>

definition lookup :: "(string \<times> jsval) list \<Rightarrow> string \<Rightarrow> jsval" where
  "lookup ps name = (case map_of ps name of None \<Rightarrow> JUndefined | Some v \<Rightarrow> v)"

definition get :: "jsval \<Rightarrow> string \<Rightarrow> jsval" where
  "get v name = lookup (own_props v) name"

definition member_of :: "jsval \<Rightarrow> string \<Rightarrow> js_error + jsval" where
  "member_of v name = (if nullish v then Inl TypeError else Inr (get v name))"

definition opt_member :: "jsval \<Rightarrow> string \<Rightarrow> jsval" where
  "opt_member v name = (if nullish v then JUndefined else get v name)"

text \<open>
  The arithmetic of \<^verbatim>\<open>now - entry.lastSeen <= PRESENCE_TTL_MS\<close> and of
  \<^verbatim>\<open>payload.updatedAt > lastUpdateRef.current\<close>: NaN propagates through the
  subtraction and every comparison with NaN is false.
\<close>

fun to_number :: "runtime \<Rightarrow> jsval \<Rightarrow> jsnum" where
  "to_number rt JUndefined = NaN"
| "to_number rt JNull = Num 0"
| "to_number rt (JBool b) = Num (if b then 1 else 0)"
| "to_number rt (JNumber n) = n"
| "to_number rt v = ToNumber rt v"

fun js_sub :: "jsnum \<Rightarrow> jsnum \<Rightarrow> jsnum" where
  "js_sub (Num a) (Num b) = Num (a - b)"
| "js_sub a b = NaN"

fun js_le :: "jsnum \<Rightarrow> jsnum \<Rightarrow> bool" where
  "js_le (Num a) (Num b) = (a \<le> b)"
| "js_le a b = False"

fun js_gt :: "jsnum \<Rightarrow> jsnum \<Rightarrow> bool" where
  "js_gt (Num a) (Num b) = (a > b)"
| "js_gt a b = False"

fun to_key :: "runtime \<Rightarrow> jsval \<Rightarrow> string" where
  "to_key rt (JString s) = s"
| "to_key rt v = ToPropertyKey rt v"

section \<open>Presence snapshots\<close>

definition PRESENCE_STORAGE_PREFIX :: string where
  "PRESENCE_STORAGE_PREFIX = ''room-presence:''"

definition PRESENCE_TTL_MS :: int where
  "PRESENCE_TTL_MS = 45000"

definition buildPresenceKey :: "string \<Rightarrow> string" where
  "buildPresenceKey roomId = PRESENCE_STORAGE_PREFIX @ roomId"

text \<open>
  \<^verbatim>\<open>prunePresenceSnapshot\<close>. The source reads the clock itself (\<^verbatim>\<open>Date.now()\<close>); the
  reading is the argument \<open>now\<close>. \<open>keeps\<close> is the condition of the \<^verbatim>\<open>if\<close>,
  \<open>snapshot_entries\<close> is \<^verbatim>\<open>Object.entries(snapshot ?? {})\<close>, and the function is the
  \<^verbatim>\<open>reduce\<close> over the entries from \<^verbatim>\<open>{}\<close>.
\<close>

definition keeps :: "runtime \<Rightarrow> int \<Rightarrow> jsval \<Rightarrow> bool" where
  "keeps rt now entry \<longleftrightarrow>
     \<not> truthy (opt_member entry ''lastSeen'') \<or>
     js_le (js_sub (Num now) (to_number rt (get entry ''lastSeen''))) (Num PRESENCE_TTL_MS)"

definition snapshot_entries :: "jsval \<Rightarrow> (string \<times> jsval) list" where
  "snapshot_entries snapshot = own_props (coalesce snapshot (JObject []))"

definition prunePresenceSnapshot ::
  "runtime \<Rightarrow> int \<Rightarrow> jsval \<Rightarrow> (string \<times> jsval) list" where
  "prunePresenceSnapshot rt now snapshot =
     fold (\<lambda>(userId, entry) acc.
             if keeps rt now entry then AList.update userId entry acc else acc)
          (snapshot_entries snapshot)
          []"

section \<open>The document store\<close>

record doc =
  doc_text :: string
  updatedAt :: jsnum

text \<open>The object \<^verbatim>\<open>{ text, updatedAt }\<close> that is written to the durable store.\<close>

definition doc_object :: "string \<Rightarrow> jsnum \<Rightarrow> jsval" where
  "doc_object t u = JObject [(''text'', JString t), (''updatedAt'', JNumber u)]"

text \<open>The placeholder body \<^verbatim>\<open>`# Room ${roomId}\n\nStart collaborating here...`\<close>.\<close>

definition placeholder :: "string \<Rightarrow> string" where
  "placeholder roomId =
     ''# Room '' @ roomId @ [CHR 0x0A, CHR 0x0A] @ ''Start collaborating here...''"

definition default_doc :: "int \<Rightarrow> string \<Rightarrow> doc" where
  "default_doc now roomId = \<lparr>doc_text = placeholder roomId, updatedAt = Num now\<rparr>"

text \<open>
  \<^verbatim>\<open>readDocSnapshot\<close>: \<open>readDocSnapshot_try\<close> is the body of the \<^verbatim>\<open>try\<close>, in which
  \<^verbatim>\<open>JSON.parse\<close> may throw and \<^verbatim>\<open>parsed.text\<close> throws when the parsed value is
  \<^verbatim>\<open>null\<close>; the \<^verbatim>\<open>catch\<close> returns the default. \<open>storage\<close> is
  \<^verbatim>\<open>window.localStorage\<close>, \<open>now\<close> the reading of \<^verbatim>\<open>Date.now()\<close>.
\<close>

definition readDocSnapshot_try ::
  "runtime \<Rightarrow> int \<Rightarrow> (string \<rightharpoonup> string) \<Rightarrow> string \<Rightarrow> string \<Rightarrow> js_error + doc" where
  "readDocSnapshot_try rt now storage key roomId =
     (case storage key of
        None \<Rightarrow> Inr (default_doc now roomId)
      | Some raw \<Rightarrow>
          if raw = [] then Inr (default_doc now roomId)
          else
            (case JSON_parse rt raw of
               None \<Rightarrow> Inl SyntaxError
             | Some parsed \<Rightarrow>
                 (case member_of parsed ''text'' of
                    Inl e \<Rightarrow> Inl e
                  | Inr t \<Rightarrow>
                      (case member_of parsed ''updatedAt'' of
                         Inl e \<Rightarrow> Inl e
                       | Inr u \<Rightarrow>
                           Inr \<lparr>doc_text = (case t of JString s \<Rightarrow> s | _ \<Rightarrow> []),
                                updatedAt = (case u of JNumber n \<Rightarrow> n | _ \<Rightarrow> Num now)\<rparr>))))"

definition readDocSnapshot ::
  "runtime \<Rightarrow> int \<Rightarrow> (string \<rightharpoonup> string) \<Rightarrow> string \<Rightarrow> string \<Rightarrow> doc" where
  "readDocSnapshot rt now storage key roomId =
     (if \<not> window_defined rt then default_doc now roomId
      else
        (case readDocSnapshot_try rt now storage key roomId of
           Inl e \<Rightarrow> default_doc now roomId
         | Inr d \<Rightarrow> d))"

text \<open>\<^verbatim>\<open>readPresenceSnapshot\<close> and \<^verbatim>\<open>persistPresenceSnapshot\<close>.\<close>

definition readPresenceSnapshot ::
  "runtime \<Rightarrow> int \<Rightarrow> (string \<rightharpoonup> string) \<Rightarrow> string \<Rightarrow> (string \<times> jsval) list" where
  "readPresenceSnapshot rt now storage key =
     (if \<not> window_defined rt then []
      else
        (case storage key of
           None \<Rightarrow> prunePresenceSnapshot rt now (JObject [])
         | Some raw \<Rightarrow>
             if raw = [] then prunePresenceSnapshot rt now (JObject [])
             else
               (case JSON_parse rt raw of
                  None \<Rightarrow> []
                | Some parsed \<Rightarrow> prunePresenceSnapshot rt now parsed)))"

definition persistPresenceSnapshot ::
  "runtime \<Rightarrow> string \<Rightarrow> (string \<times> jsval) list \<Rightarrow> (string \<rightharpoonup> string) \<Rightarrow> (string \<rightharpoonup> string)" where
  "persistPresenceSnapshot rt key snapshot storage =
     (if \<not> window_defined rt then storage
      else storage(key \<mapsto> JSON_stringify rt (JObject snapshot)))"

section \<open>The collaborative workspace\<close>

text \<open>
  The state of one replica, \<^verbatim>\<open>CollaborativeWorkspace\<close>: its React state (\<open>docState\<close>,
  \<open>presence\<close>, \<open>isChannelReady\<close>), its refs (\<open>lastUpdateRef\<close>, \<open>channelRef\<close>, the name
  of the open channel), the room it is mounted for, and the durable store as this replica
  reads and writes it (what a peer writes arrives as a \<^verbatim>\<open>storage\<close> event). State updates are applied in the order they are issued. The handlers of the
  component run where \<^verbatim>\<open>window\<close> exists (they are installed through it), so
  \<^verbatim>\<open>persistDoc\<close> reaches \<^verbatim>\<open>window.localStorage\<close>.
\<close>

record workspace =
  roomId :: string
  docState :: doc
  presence :: "(string \<times> jsval) list"
  isChannelReady :: bool
  lastUpdateRef :: jsnum
  channelRef :: "string option"
  localStorage :: "string \<rightharpoonup> string"

definition storageKey :: "workspace \<Rightarrow> string" where
  "storageKey st = ''room-doc:'' @ roomId st"

definition presenceStorageKey :: "workspace \<Rightarrow> string" where
  "presenceStorageKey st = buildPresenceKey (roomId st)"

text \<open>The first render: both snapshots are read, no channel yet.\<close>

definition mount :: "runtime \<Rightarrow> int \<Rightarrow> string \<Rightarrow> (string \<rightharpoonup> string) \<Rightarrow> workspace" where
  "mount rt now room storage =
     (let d = readDocSnapshot rt now storage (''room-doc:'' @ room) room in
      \<lparr>roomId = room,
       docState = d,
       presence = readPresenceSnapshot rt now storage (buildPresenceKey room),
       isChannelReady = False,
       lastUpdateRef = updatedAt d,
       channelRef = None,
       localStorage = storage\<rparr>)"

definition persistDoc :: "runtime \<Rightarrow> string \<Rightarrow> jsnum \<Rightarrow> workspace \<Rightarrow> workspace" where
  "persistDoc rt nextText timestamp st =
     st\<lparr>lastUpdateRef := timestamp,
        docState := \<lparr>doc_text = nextText, updatedAt = timestamp\<rparr>,
        localStorage :=
          (localStorage st)(storageKey st \<mapsto> JSON_stringify rt (doc_object nextText timestamp))\<rparr>"

text \<open>
  \<^verbatim>\<open>upsertPresence(userId, entryOrUpdater)\<close>. The second argument is an entry (or
  \<^verbatim>\<open>null\<close>) or a function of the previous entry. \<open>spread old source\<close> is
  \<^verbatim>\<open>{ ...old, ...source }\<close>; \<open>now\<close> is the clock that the pruning reads.
\<close>

datatype updater = Entry jsval | Updater "jsval \<Rightarrow> jsval"

definition spread :: "jsval \<Rightarrow> jsval \<Rightarrow> jsval" where
  "spread old source =
     JObject (fold (\<lambda>(k, v) acc. AList.update k v acc) (own_props source) (own_props old))"

definition upsert_next ::
  "runtime \<Rightarrow> jsval \<Rightarrow> updater \<Rightarrow> (string \<times> jsval) list \<Rightarrow> (string \<times> jsval) list" where
  "upsert_next rt userId entryOrUpdater prev =
     (let key = to_key rt userId in
      if entryOrUpdater = Entry JNull then AList.delete key prev
      else
        (let source =
               (case entryOrUpdater of
                  Updater f \<Rightarrow> f (lookup prev key)
                | Entry e \<Rightarrow> e)
         in if \<not> truthy source then AList.delete key prev
            else AList.update key (spread (lookup prev key) source) prev))"

definition upsertPresence ::
  "runtime \<Rightarrow> int \<Rightarrow> jsval \<Rightarrow> updater \<Rightarrow> workspace \<Rightarrow> workspace" where
  "upsertPresence rt now userId entryOrUpdater st =
     (if \<not> truthy userId then st
      else
        (let next = upsert_next rt userId entryOrUpdater (presence st);
             pruned = prunePresenceSnapshot rt now (JObject next)
         in st\<lparr>presence := pruned,
               localStorage :=
                 persistPresenceSnapshot rt (presenceStorageKey st) pruned (localStorage st)\<rparr>))"

text \<open>
  \<^verbatim>\<open>handlePresenceMessage(payload)\<close>. Destructuring the payload throws on \<^verbatim>\<open>null\<close> and
  \<^verbatim>\<open>undefined\<close>. \<open>seen\<close> is the clock read for \<^verbatim>\<open>lastSeen\<close>, \<open>now\<close> the one read
  by the pruning.
\<close>

definition handlePresenceMessage ::
  "runtime \<Rightarrow> int \<Rightarrow> int \<Rightarrow> jsval \<Rightarrow> workspace \<Rightarrow> js_error + workspace" where
  "handlePresenceMessage rt seen now payload st =
     (if nullish payload then Inl TypeError
      else
        (let user = get payload ''user'';
             action = get payload ''action'';
             cursor = get payload ''cursor''
         in if \<not> truthy (opt_member user ''id'') then Inr st
            else if action = JString ''leave''
            then Inr (upsertPresence rt now (get user ''id'') (Entry JNull) st)
            else Inr (upsertPresence rt now (get user ''id'')
                        (Updater (\<lambda>previousEntry.
                           JObject [(''user'', user),
                                    (''cursor'', coalesce cursor (opt_member previousEntry ''cursor'')),
                                    (''lastSeen'', JNumber (Num seen))]))
                        st)))"

text \<open>
  The \<^verbatim>\<open>storage\<close> listeners. An event carries the key that changed and its new value
  (both may be \<^verbatim>\<open>null\<close>). The \<^verbatim>\<open>try\<close> bodies may throw in \<^verbatim>\<open>JSON.parse\<close> and in
  \<^verbatim>\<open>payload.text\<close>; the \<^verbatim>\<open>catch\<close> ignores the event.
\<close>

definition handleStorage_try :: "runtime \<Rightarrow> string \<Rightarrow> workspace \<Rightarrow> js_error + workspace" where
  "handleStorage_try rt newValue st =
     (case JSON_parse rt newValue of
        None \<Rightarrow> Inl SyntaxError
      | Some payload \<Rightarrow>
          (case member_of payload ''text'' of
             Inl e \<Rightarrow> Inl e
           | Inr t \<Rightarrow>
               (case (t, get payload ''updatedAt'') of
                  (JString s, JNumber u) \<Rightarrow>
                    if js_gt u (lastUpdateRef st) then Inr (persistDoc rt s u st) else Inr st
                | _ \<Rightarrow> Inr st)))"

definition handleStorage ::
  "runtime \<Rightarrow> string option \<Rightarrow> string option \<Rightarrow> workspace \<Rightarrow> workspace" where
  "handleStorage rt event_key event_newValue st =
     (case event_newValue of
        None \<Rightarrow> st
      | Some newValue \<Rightarrow>
          if event_key \<noteq> Some (storageKey st) \<or> newValue = [] then st
          else (case handleStorage_try rt newValue st of Inl e \<Rightarrow> st | Inr st' \<Rightarrow> st'))"

definition handlePresenceStorage ::
  "runtime \<Rightarrow> int \<Rightarrow> string option \<Rightarrow> string option \<Rightarrow> workspace \<Rightarrow> workspace" where
  "handlePresenceStorage rt now event_key event_newValue st =
     (case event_newValue of
        None \<Rightarrow> st
      | Some newValue \<Rightarrow>
          if event_key \<noteq> Some (presenceStorageKey st) \<or> newValue = [] then st
          else
            (case JSON_parse rt newValue of
               None \<Rightarrow> st
             | Some parsed \<Rightarrow>
                 (let snapshot = (if truthy parsed then parsed else JObject [])
                  in st\<lparr>presence := prunePresenceSnapshot rt now snapshot\<rparr>)))"

text \<open>The callback of \<^verbatim>\<open>setInterval(..., PRESENCE_TTL_MS)\<close>, run at clock reading \<open>now\<close>.\<close>

definition prune_tick :: "runtime \<Rightarrow> int \<Rightarrow> workspace \<Rightarrow> workspace" where
  "prune_tick rt now st =
     (let prev = presence st;
          pruned = prunePresenceSnapshot rt now (JObject prev)
      in if length prev = length pruned then st
         else st\<lparr>presence := pruned,
                 localStorage :=
                   persistPresenceSnapshot rt (presenceStorageKey st) pruned (localStorage st)\<rparr>)"

text \<open>
  The channel effect: \<open>channel_effect_try\<close> is the body of the \<^verbatim>\<open>try\<close>, where
  \<^verbatim>\<open>new BroadcastChannel(...)\<close> throws when the feature is missing or blocked, and the
  \<^verbatim>\<open>catch\<close> marks the channel not ready. \<open>onmessage\<close> is the handler the effect
  installs, applied to \<^verbatim>\<open>event.data\<close>.
\<close>

definition channel_effect_try :: "runtime \<Rightarrow> workspace \<Rightarrow> js_error + workspace" where
  "channel_effect_try rt st =
     (let name = ''room-channel:'' @ roomId st in
      if BroadcastChannel_ok rt name
      then Inr (st\<lparr>channelRef := Some name, isChannelReady := True\<rparr>)
      else Inl ReferenceError)"

definition channel_effect :: "runtime \<Rightarrow> workspace \<Rightarrow> js_error + workspace" where
  "channel_effect rt st =
     (case channel_effect_try rt st of
        Inl e \<Rightarrow> Inr (st\<lparr>isChannelReady := False\<rparr>)
      | Inr st' \<Rightarrow> Inr st')"

definition onmessage ::
  "runtime \<Rightarrow> int \<Rightarrow> int \<Rightarrow> jsval \<Rightarrow> workspace \<Rightarrow> js_error + workspace" where
  "onmessage rt seen now payload st =
     (if \<not> truthy payload then Inr st
      else
        (case member_of payload ''type'' of
           Inl e \<Rightarrow> Inl e
         | Inr ty \<Rightarrow>
             if ty = JString ''presence'' then handlePresenceMessage rt seen now payload st
             else
               (let message = (if ty = JString ''doc'' then payload else JNull);
                    textPayload = coalesce message payload
                in (case (opt_member textPayload ''text'', opt_member textPayload ''updatedAt'') of
                      (JString s, JNumber u) \<Rightarrow>
                        if js_gt u (lastUpdateRef st) then Inr (persistDoc rt s u st) else Inr st
                    | _ \<Rightarrow> Inr st))))"

text \<open>
  \<^verbatim>\<open>presenceList\<close>, what the component renders: the entries that have a \<^verbatim>\<open>user.id\<close>,
  sorted by \<^verbatim>\<open>(b.lastSeen ?? 0) - (a.lastSeen ?? 0)\<close>. The sort is stable; it is written
  as an insertion sort, which gives the order of \<^verbatim>\<open>Array.prototype.sort\<close> whenever the
  comparator is consistent.
\<close>

definition compare_lastSeen :: "runtime \<Rightarrow> jsval \<Rightarrow> jsval \<Rightarrow> jsnum" where
  "compare_lastSeen rt a b =
     js_sub (to_number rt (coalesce (get b ''lastSeen'') (JNumber (Num 0))))
            (to_number rt (coalesce (get a ''lastSeen'') (JNumber (Num 0))))"

fun insert_by :: "('a \<Rightarrow> 'a \<Rightarrow> jsnum) \<Rightarrow> 'a \<Rightarrow> 'a list \<Rightarrow> 'a list" where
  "insert_by cmp x [] = [x]"
| "insert_by cmp x (y # ys) =
     (if js_gt (cmp x y) (Num 0) then y # insert_by cmp x ys else x # y # ys)"

definition sort_by :: "('a \<Rightarrow> 'a \<Rightarrow> jsnum) \<Rightarrow> 'a list \<Rightarrow> 'a list" where
  "sort_by cmp xs = foldr (insert_by cmp) xs []"

definition presenceList :: "runtime \<Rightarrow> workspace \<Rightarrow> jsval list" where
  "presenceList rt st =
     sort_by (compare_lastSeen rt)
       (filter (\<lambda>entry. truthy (opt_member (opt_member entry ''user'') ''id''))
          (map snd (presence st)))"

text \<open>
  The document message that \<^verbatim>\<open>handleInput\<close> posts on the channel after
  \<^verbatim>\<open>persistDoc(nextText, timestamp)\<close>, when there is a channel. \<open>handleInput\<close> returns
  the new state and the message posted, if any; the text comes from the editor, and the
  cursor broadcast at the end of the handler, which reads the selection of the page, is
  not part of the model.
\<close>

definition doc_message :: "string \<Rightarrow> jsnum \<Rightarrow> jsval" where
  "doc_message t u =
     JObject [(''type'', JString ''doc''), (''text'', JString t), (''updatedAt'', JNumber u)]"

definition handleInput ::
  "runtime \<Rightarrow> int \<Rightarrow> string \<Rightarrow> workspace \<Rightarrow> workspace \<times> jsval option" where
  "handleInput rt now nextText st =
     (persistDoc rt nextText (Num now) st,
      case channelRef st of
        None \<Rightarrow> None
      | Some name \<Rightarrow> Some (doc_message nextText (Num now)))"

text \<open>
  The interval timer: started at the mount, at clock reading \<open>mounted\<close>, it fires at
  \<open>mounted + PRESENCE_TTL_MS\<close>, \<open>mounted + 2 * PRESENCE_TTL_MS\<close>, ... \<open>ticks_between\<close>
  lists the firings after \<open>t\<close> and up to \<open>q\<close>, and \<open>run_ticks\<close> runs the callback at
  each of them in turn.
\<close>

definition ticks_between :: "int \<Rightarrow> int \<Rightarrow> int \<Rightarrow> int list" where
  "ticks_between mounted t q =
     filter (\<lambda>tick. t < tick)
       (map (\<lambda>i. mounted + PRESENCE_TTL_MS * int i)
          [1 ..< Suc (nat ((q - mounted) div PRESENCE_TTL_MS))])"

definition run_ticks :: "runtime \<Rightarrow> int list \<Rightarrow> workspace \<Rightarrow> workspace" where
  "run_ticks rt ticks st = fold (prune_tick rt) ticks st"

section \<open>The specification's notions\<close>




text \<open>
  A runtime to evaluate the model at concrete inputs: of \<^verbatim>\<open>JSON.parse\<close> and
  \<^verbatim>\<open>JSON.stringify\<close> it has what they do on the few texts and values listed.
\<close>

definition demo_parse :: "string \<Rightarrow> jsval option" where
  \<open>demo_parse = map_of
     [(''null'', JNull),
      (''{"updatedAt":5}'', JObject [(''updatedAt'', JNumber (Num 5))]),
      (''{"text":"hi"}'', JObject [(''text'', JString ''hi'')]),
      (''{"text":"hi","updatedAt":7}'', doc_object ''hi'' (Num 7))]\<close>

definition demo_stringify :: "jsval \<Rightarrow> string" where
  \<open>demo_stringify v =
     (if v = doc_object ''hi'' (Num 7) then ''{"text":"hi","updatedAt":7}''
      else if v = JObject [] then ''{}''
      else ''?'')\<close>

definition demo_runtime :: runtime where
  "demo_runtime =
     \<lparr>JSON_parse = demo_parse,
      JSON_stringify = demo_stringify,
      ToNumber = (\<lambda>v. NaN),
      ToPropertyKey = (\<lambda>v. ''[object Object]''),
      window_defined = True,
      BroadcastChannel_ok = (\<lambda>name. True)\<rparr>"

text \<open>
  What holds of the state of a replica from its mount on: the ref follows the document's
  timestamp, and the presence snapshot is an object (its keys are distinct).
\<close>

definition workspace_inv :: "workspace \<Rightarrow> bool" where
  "workspace_inv st \<longleftrightarrow>
     lastUpdateRef st = updatedAt (docState st) \<and> distinct (map fst (presence st))"

text \<open>
  The specification's \<^verbatim>\<open>mergeRemote\<close>: the candidate replaces the local document
  exactly when its timestamp is greater.
\<close>

definition mergeRemote :: "doc \<Rightarrow> doc \<Rightarrow> doc" where
  "mergeRemote candidate local =
     (if js_gt (updatedAt candidate) (updatedAt local) then candidate else local)"

definition demo_workspace :: workspace where
  "demo_workspace =
     \<lparr>roomId = ''r1'',
      docState = \<lparr>doc_text = ''old'', updatedAt = Num 5\<rparr>,
      presence = [],
      isChannelReady = False,
      lastUpdateRef = Num 5,
      channelRef = None,
      localStorage = Map.empty\<rparr>"

definition demo_user :: "string \<Rightarrow> jsval" where
  "demo_user uid = JObject [(''id'', JString uid), (''name'', JString ''Ada'')]"

definition demo_entry :: "string \<Rightarrow> int \<Rightarrow> jsval" where
  "demo_entry uid t = JObject [(''user'', demo_user uid), (''lastSeen'', JNumber (Num t))]"


section \<open>Pruning\<close>

lemma update_fresh: "k \<notin> fst ` set al \<Longrightarrow> AList.update k v al = al @ [(k, v)]"
  by (induction al) auto

lemma set_update_subset: "set (AList.update k v al) \<subseteq> insert (k, v) (set al)"
  by (induction al) auto

text \<open>On an object, whose keys are distinct, the \<^verbatim>\<open>reduce\<close> is a filter.\<close>

lemma fold_prune_filter:
  "distinct (map fst ps) \<Longrightarrow> fst ` set ps \<inter> fst ` set acc = {} \<Longrightarrow>
   fold (\<lambda>(userId, entry) acc.
           if keeps rt now entry then AList.update userId entry acc else acc) ps acc
     = acc @ filter (\<lambda>(k, e). keeps rt now e) ps"
proof (induction ps arbitrary: acc)
  case Nil
  then show ?case by simp
next
  case (Cons p ps)
  obtain k e where p: "p = (k, e)" by (cases p)
  have d: "distinct (map fst ps)" using Cons.prems by simp
  show ?case
  proof (cases "keeps rt now e")
    case True
    have fresh: "k \<notin> fst ` set acc" using Cons.prems p by auto
    have disj: "fst ` set ps \<inter> fst ` set (acc @ [(k, e)]) = {}"
      using Cons.prems p by auto
    show ?thesis
      using Cons.IH [OF d disj] True p by (simp add: update_fresh [OF fresh])
  next
    case False
    have disj: "fst ` set ps \<inter> fst ` set acc = {}" using Cons.prems by auto
    show ?thesis using Cons.IH [OF d disj] False p by simp
  qed
qed

lemma prune_filter:
  "distinct (map fst (snapshot_entries snapshot)) \<Longrightarrow>
   prunePresenceSnapshot rt now snapshot =
     filter (\<lambda>(k, e). keeps rt now e) (snapshot_entries snapshot)"
  unfolding prunePresenceSnapshot_def
  using fold_prune_filter [of "snapshot_entries snapshot" "[]" rt now] by simp

text \<open>Whatever the snapshot, what the pruning returns was in it and passed the test.\<close>

lemma fold_prune_subset:
  "set (fold (\<lambda>(userId, entry) acc.
               if keeps rt now entry then AList.update userId entry acc else acc) ps acc)
     \<subseteq> set acc \<union> {(k, e). (k, e) \<in> set ps \<and> keeps rt now e}"
proof (induction ps arbitrary: acc)
  case Nil
  then show ?case by simp
next
  case (Cons p ps)
  obtain k e where p: "p = (k, e)" by (cases p)
  show ?case
    using Cons.IH [of "AList.update k e acc"] Cons.IH [of acc] set_update_subset [of k e acc] p
    by (auto split: if_splits)
qed

lemma prune_subset:
  "(k, e) \<in> set (prunePresenceSnapshot rt now snapshot) \<Longrightarrow>
   (k, e) \<in> set (snapshot_entries snapshot) \<and> keeps rt now e"
  unfolding prunePresenceSnapshot_def
  using fold_prune_subset [of rt now "snapshot_entries snapshot" "[]"] by auto

lemma fold_prune_distinct:
  "distinct (map fst acc) \<Longrightarrow>
   distinct (map fst (fold (\<lambda>(userId, entry) acc.
                              if keeps rt now entry then AList.update userId entry acc else acc)
                           ps acc))"
  by (induction ps arbitrary: acc) (auto simp: distinct_update)

lemma prune_distinct: "distinct (map fst (prunePresenceSnapshot rt now snapshot))"
  unfolding prunePresenceSnapshot_def by (rule fold_prune_distinct) simp







section \<open>Merging remote documents\<close>

lemma get_defined: "get v name \<noteq> JUndefined \<Longrightarrow> truthy v \<and> \<not> nullish v"
  by (cases v) (auto simp: get_def lookup_def index_keys_def split: jsnum.splits)

lemma js_gt_asym: "js_gt a b \<Longrightarrow> \<not> js_gt b a"
  by (cases a; cases b) auto

lemma js_gt_irrefl: "\<not> js_gt a a"
  by (cases a) auto

lemma onmessage_doc:
  assumes "get payload ''text'' = JString s" "get payload ''updatedAt'' = JNumber u"
    and "get payload ''type'' \<noteq> JString ''presence''"
  shows "onmessage rt seen now payload st =
           Inr (if js_gt u (lastUpdateRef st) then persistDoc rt s u st else st)"
proof -
  have p: "truthy payload" "\<not> nullish payload"
    using get_defined [of payload "''text''"] assms(1) by auto
  then show ?thesis using assms
    by (simp add: onmessage_def member_of_def opt_member_def coalesce_def Let_def)
qed

lemma handleStorage_doc:
  assumes "get payload ''text'' = JString s" "get payload ''updatedAt'' = JNumber u"
    and "raw \<noteq> []" "JSON_parse rt raw = Some payload"
  shows "handleStorage rt (Some (storageKey st)) (Some raw) st =
           (if js_gt u (lastUpdateRef st) then persistDoc rt s u st else st)"
proof -
  have p: "\<not> nullish payload"
    using get_defined [of payload "''text''"] assms(1) by auto
  then show ?thesis using assms
    by (simp add: handleStorage_def handleStorage_try_def member_of_def)
qed

text \<open>
  Claim C1. A remote document candidate, a payload with a string \<^verbatim>\<open>text\<close> and a number
  \<^verbatim>\<open>updatedAt\<close> that is not a presence message, arrives as a channel message or as a
  change notification of the durable store (the new value parses to the payload). On
  both ways the merge replaces the local document exactly when the candidate's
  \<^verbatim>\<open>updatedAt\<close> is greater than the local one; otherwise the state of the replica is
  unchanged. So the local \<^verbatim>\<open>updatedAt\<close> never decreases through a merge, and the ref
  keeps following it.
\<close>

theorem merge_remote_lww:
  assumes "get payload ''text'' = JString s" "get payload ''updatedAt'' = JNumber u"
    and "get payload ''type'' \<noteq> JString ''presence''"
    and "raw \<noteq> []" "JSON_parse rt raw = Some payload"
    and "lastUpdateRef st = updatedAt (docState st)"
  shows "\<exists>st'. onmessage rt seen now payload st = Inr st' \<and>
            handleStorage rt (Some (storageKey st)) (Some raw) st = st' \<and>
            st' = (if js_gt u (updatedAt (docState st)) then persistDoc rt s u st else st) \<and>
            docState st' = mergeRemote \<lparr>doc_text = s, updatedAt = u\<rparr> (docState st) \<and>
            \<not> js_gt (updatedAt (docState st)) (updatedAt (docState st')) \<and>
            lastUpdateRef st' = updatedAt (docState st')"
  using assms onmessage_doc [OF assms(1-3), of rt seen now st]
    handleStorage_doc [OF assms(1,2,4,5), of st]
  by (auto simp: mergeRemote_def persistDoc_def js_gt_irrefl js_gt_asym)

theorem merge_remote_lww_witness:
  \<open>get (doc_object ''hi'' (Num 7)) ''text'' = JString ''hi'' \<and>
   get (doc_object ''hi'' (Num 7)) ''updatedAt'' = JNumber (Num 7) \<and>
   get (doc_object ''hi'' (Num 7)) ''type'' \<noteq> JString ''presence'' \<and>
   ''{"text":"hi","updatedAt":7}'' \<noteq> [] \<and>
   JSON_parse demo_runtime ''{"text":"hi","updatedAt":7}'' = Some (doc_object ''hi'' (Num 7)) \<and>
   lastUpdateRef demo_workspace = updatedAt (docState demo_workspace) \<and>
   js_gt (Num 7) (updatedAt (docState demo_workspace)) \<and>
   onmessage demo_runtime 0 0 (doc_object ''hi'' (Num 7)) demo_workspace =
     Inr (persistDoc demo_runtime ''hi'' (Num 7) demo_workspace) \<and>
   handleStorage demo_runtime (Some (storageKey demo_workspace))
       (Some ''{"text":"hi","updatedAt":7}'') demo_workspace =
     persistDoc demo_runtime ''hi'' (Num 7) demo_workspace \<and>
   docState (persistDoc demo_runtime ''hi'' (Num 7) demo_workspace) =
     \<lparr>doc_text = ''hi'', updatedAt = Num 7\<rparr>\<close>
  using merge_remote_lww [of "doc_object ''hi'' (Num 7)" "''hi''" "Num 7"
      \<open>''{"text":"hi","updatedAt":7}''\<close> demo_runtime demo_workspace 0 0]
  by (simp add: doc_object_def get_def lookup_def demo_runtime_def demo_parse_def
        demo_workspace_def persistDoc_def)

text \<open>
  Claim C3. Two document states A and B with different \<^verbatim>\<open>updatedAt\<close>: the replica
  holding A that receives B's document message, and the replica holding B that receives
  A's, end with the same document, the one whose \<^verbatim>\<open>updatedAt\<close> is greater.
\<close>

theorem lww_commutes:
  assumes "a \<noteq> b"
    and "docState sa = \<lparr>doc_text = ta, updatedAt = Num a\<rparr>" "lastUpdateRef sa = Num a"
    and "docState sb = \<lparr>doc_text = tb, updatedAt = Num b\<rparr>" "lastUpdateRef sb = Num b"
  shows "\<exists>sa' sb'.
           onmessage rt seen now (doc_message tb (Num b)) sa = Inr sa' \<and>
           onmessage rt seen' now' (doc_message ta (Num a)) sb = Inr sb' \<and>
           docState sa' = docState sb' \<and>
           docState sa' = (if a > b then docState sa else docState sb)"
proof -
  have A: "onmessage rt seen now (doc_message tb (Num b)) sa =
             Inr (if js_gt (Num b) (lastUpdateRef sa) then persistDoc rt tb (Num b) sa else sa)"
    by (rule onmessage_doc) (simp_all add: doc_message_def get_def lookup_def)
  have B: "onmessage rt seen' now' (doc_message ta (Num a)) sb =
             Inr (if js_gt (Num a) (lastUpdateRef sb) then persistDoc rt ta (Num a) sb else sb)"
    by (rule onmessage_doc) (simp_all add: doc_message_def get_def lookup_def)
  show ?thesis using assms by (auto simp: A B persistDoc_def)
qed

theorem lww_commutes_witness:
  "(5::int) \<noteq> 7 \<and>
   docState demo_workspace = \<lparr>doc_text = ''old'', updatedAt = Num 5\<rparr> \<and>
   lastUpdateRef demo_workspace = Num 5 \<and>
   docState (persistDoc demo_runtime ''new'' (Num 7) demo_workspace)
     = \<lparr>doc_text = ''new'', updatedAt = Num 7\<rparr> \<and>
   lastUpdateRef (persistDoc demo_runtime ''new'' (Num 7) demo_workspace) = Num 7 \<and>
   (\<exists>sa' sb'.
      onmessage demo_runtime 0 0 (doc_message ''new'' (Num 7)) demo_workspace = Inr sa' \<and>
      onmessage demo_runtime 0 0 (doc_message ''old'' (Num 5))
        (persistDoc demo_runtime ''new'' (Num 7) demo_workspace) = Inr sb' \<and>
      docState sa' = docState sb' \<and>
      docState sa' = \<lparr>doc_text = ''new'', updatedAt = Num 7\<rparr>)"
  using lww_commutes [of 5 7 demo_workspace "''old''"
      "persistDoc demo_runtime ''new'' (Num 7) demo_workspace" "''new''" demo_runtime 0 0 0 0]
  by (simp add: demo_workspace_def persistDoc_def)

lemma readDocSnapshot_cases:
  "readDocSnapshot rt now storage key room =
     (if \<not> window_defined rt then default_doc now room
      else
        (case storage key of
           None \<Rightarrow> default_doc now room
         | Some raw \<Rightarrow>
             if raw = [] then default_doc now room
             else
               (case JSON_parse rt raw of
                  None \<Rightarrow> default_doc now room
                | Some parsed \<Rightarrow>
                    if nullish parsed then default_doc now room
                    else \<lparr>doc_text = (case get parsed ''text'' of JString s \<Rightarrow> s | _ \<Rightarrow> []),
                          updatedAt =
                            (case get parsed ''updatedAt'' of JNumber n \<Rightarrow> n | _ \<Rightarrow> Num now)\<rparr>)))"
  by (simp add: readDocSnapshot_def readDocSnapshot_try_def member_of_def split: option.splits)

text \<open>
  Claim C4, as amended. \<^verbatim>\<open>readDocSnapshot\<close> returns a document for every room and every
  content of the durable record; every error of its \<^verbatim>\<open>try\<close> body ends in the default
  document. The default document (the placeholder body of the room, stamped with the
  current time) is returned when there is no \<^verbatim>\<open>window\<close>, when the record is absent or
  empty, when it does not parse, and when it parses to \<^verbatim>\<open>null\<close>. For any other parsed
  value the two fields fall back one by one: \<^verbatim>\<open>text\<close> is the stored text when that is a
  string and the empty string otherwise, \<^verbatim>\<open>updatedAt\<close> is the stored one when that is a
  number and the current time otherwise. In particular a record with a string
  \<^verbatim>\<open>text\<close> and a number \<^verbatim>\<open>updatedAt\<close> is returned as stored.
\<close>

theorem load_never_fails:
  "(\<not> window_defined rt \<or> storage key = None \<or> storage key = Some [] \<or>
      (\<exists>raw. storage key = Some raw \<and>
         (JSON_parse rt raw = None \<or> JSON_parse rt raw = Some JNull \<or>
          JSON_parse rt raw = Some JUndefined))
    \<longrightarrow> readDocSnapshot rt now storage key room = default_doc now room) \<and>
   (window_defined rt \<and> storage key = Some raw \<and> raw \<noteq> [] \<and>
      JSON_parse rt raw = Some parsed \<and> \<not> nullish parsed
    \<longrightarrow> readDocSnapshot rt now storage key room =
          \<lparr>doc_text = (case get parsed ''text'' of JString s \<Rightarrow> s | _ \<Rightarrow> []),
           updatedAt = (case get parsed ''updatedAt'' of JNumber n \<Rightarrow> n | _ \<Rightarrow> Num now)\<rparr>) \<and>
   (window_defined rt \<and> storage key = Some raw \<and> raw \<noteq> [] \<and>
      JSON_parse rt raw = Some parsed \<and>
      get parsed ''text'' = JString s \<and> get parsed ''updatedAt'' = JNumber u
    \<longrightarrow> readDocSnapshot rt now storage key room = \<lparr>doc_text = s, updatedAt = u\<rparr>) \<and>
   ((\<exists>e. readDocSnapshot_try rt now storage key room = Inl e)
    \<longrightarrow> readDocSnapshot rt now storage key room = default_doc now room)"
proof -
  have n: "get parsed ''text'' = JString s \<Longrightarrow> \<not> nullish parsed"
    using get_defined [of parsed "''text''"] by simp
  have c1: "\<not> window_defined rt \<or> storage key = None \<or> storage key = Some [] \<or>
      (\<exists>raw. storage key = Some raw \<and>
         (JSON_parse rt raw = None \<or> JSON_parse rt raw = Some JNull \<or>
          JSON_parse rt raw = Some JUndefined))
    \<longrightarrow> readDocSnapshot rt now storage key room = default_doc now room"
    by (auto simp: readDocSnapshot_cases)
  have c2: "window_defined rt \<and> storage key = Some raw \<and> raw \<noteq> [] \<and>
      JSON_parse rt raw = Some parsed \<and> \<not> nullish parsed
    \<longrightarrow> readDocSnapshot rt now storage key room =
          \<lparr>doc_text = (case get parsed ''text'' of JString s \<Rightarrow> s | _ \<Rightarrow> []),
           updatedAt = (case get parsed ''updatedAt'' of JNumber n \<Rightarrow> n | _ \<Rightarrow> Num now)\<rparr>"
    by (simp add: readDocSnapshot_cases)
  have c3: "window_defined rt \<and> storage key = Some raw \<and> raw \<noteq> [] \<and>
      JSON_parse rt raw = Some parsed \<and>
      get parsed ''text'' = JString s \<and> get parsed ''updatedAt'' = JNumber u
    \<longrightarrow> readDocSnapshot rt now storage key room = \<lparr>doc_text = s, updatedAt = u\<rparr>"
    using n by (auto simp: readDocSnapshot_cases)
  have c4: "(\<exists>e. readDocSnapshot_try rt now storage key room = Inl e)
    \<longrightarrow> readDocSnapshot rt now storage key room = default_doc now room"
    by (auto simp: readDocSnapshot_def)
  show ?thesis using c1 c2 c3 c4 by blast
qed


theorem load_never_fails_witness:
  \<open>readDocSnapshot demo_runtime 1000 Map.empty ''room-doc:r1'' ''r1'' = default_doc 1000 ''r1'' \<and>
   readDocSnapshot demo_runtime 1000 [''room-doc:r1'' \<mapsto> ''{oops''] ''room-doc:r1'' ''r1''
     = default_doc 1000 ''r1'' \<and>
   readDocSnapshot demo_runtime 1000 [''room-doc:r1'' \<mapsto> ''null''] ''room-doc:r1'' ''r1''
     = default_doc 1000 ''r1'' \<and>
   readDocSnapshot_try demo_runtime 1000 [''room-doc:r1'' \<mapsto> ''null''] ''room-doc:r1'' ''r1''
     = Inl TypeError \<and>
   readDocSnapshot demo_runtime 1000 [''room-doc:r1'' \<mapsto> ''{"text":"hi"}''] ''room-doc:r1'' ''r1''
     = \<lparr>doc_text = ''hi'', updatedAt = Num 1000\<rparr> \<and>
   readDocSnapshot demo_runtime 1000 [''room-doc:r1'' \<mapsto> ''{"text":"hi","updatedAt":7}'']
       ''room-doc:r1'' ''r1''
     = \<lparr>doc_text = ''hi'', updatedAt = Num 7\<rparr>\<close>
  using load_never_fails [of demo_runtime \<open>[''room-doc:r1'' \<mapsto> ''{"text":"hi","updatedAt":7}'']\<close>
      "''room-doc:r1''" 1000 "''r1''" \<open>''{"text":"hi","updatedAt":7}''\<close>
      "doc_object ''hi'' (Num 7)" "''hi''" "Num 7"]
  by (simp add: readDocSnapshot_def readDocSnapshot_try_def demo_runtime_def demo_parse_def
        member_of_def get_def lookup_def doc_object_def)

text \<open>
  Claim C4 as the specification states it fails: a record that parses to an object
  without \<^verbatim>\<open>text\<close> does not give the default document, but the empty text with the
  stored \<^verbatim>\<open>updatedAt\<close>.
\<close>

theorem load_missing_text_counterexample:
  \<open>JSON_parse demo_runtime ''{"updatedAt":5}'' = Some (JObject [(''updatedAt'', JNumber (Num 5))]) \<and>
   get (JObject [(''updatedAt'', JNumber (Num 5))]) ''text'' = JUndefined \<and>
   readDocSnapshot demo_runtime 1000 [''room-doc:r1'' \<mapsto> ''{"updatedAt":5}''] ''room-doc:r1'' ''r1''
     = \<lparr>doc_text = [], updatedAt = Num 5\<rparr> \<and>
   readDocSnapshot demo_runtime 1000 [''room-doc:r1'' \<mapsto> ''{"updatedAt":5}''] ''room-doc:r1'' ''r1''
     \<noteq> default_doc 1000 ''r1''\<close>
  by (simp add: readDocSnapshot_def readDocSnapshot_try_def demo_runtime_def demo_parse_def
        member_of_def get_def lookup_def default_doc_def placeholder_def)






text \<open>
  Claim C6. When constructing the channel of the room throws, the effect completes
  normally: nothing changes but the channel being marked not ready. The replica still
  merges, by the rule of last writer wins, the document a peer of the same room writes to
  the durable store (\<^verbatim>\<open>persistDoc\<close>), which reaches it as the change notification of the
  document key carrying the written value; \<^verbatim>\<open>JSON.parse\<close> is taken to read back
  what \<^verbatim>\<open>JSON.stringify\<close> wrote for the document.
\<close>

theorem channel_unavailable_fallback:
  assumes "\<not> BroadcastChannel_ok rt (''room-channel:'' @ roomId st)"
    and "lastUpdateRef st = updatedAt (docState st)"
    and "roomId peer = roomId st"
    and "JSON_stringify rt (doc_object t u) \<noteq> []"
    and "JSON_parse rt (JSON_stringify rt (doc_object t u)) = Some (doc_object t u)"
  shows "\<exists>st'. channel_effect rt st = Inr st' \<and> st' = st\<lparr>isChannelReady := False\<rparr> \<and>
           handleStorage rt (Some (storageKey (persistDoc rt t u peer)))
               (localStorage (persistDoc rt t u peer) (storageKey (persistDoc rt t u peer))) st'
             = (if js_gt u (updatedAt (docState st)) then persistDoc rt t u st' else st') \<and>
           docState (handleStorage rt (Some (storageKey (persistDoc rt t u peer)))
               (localStorage (persistDoc rt t u peer) (storageKey (persistDoc rt t u peer))) st')
             = mergeRemote \<lparr>doc_text = t, updatedAt = u\<rparr> (docState st)"
proof -
  let ?st' = "st\<lparr>isChannelReady := False\<rparr>"
  have e: "channel_effect rt st = Inr ?st'"
    using assms(1) by (simp add: channel_effect_def channel_effect_try_def)
  have k: "storageKey (persistDoc rt t u peer) = storageKey ?st'"
    using assms(3) by (simp add: storageKey_def persistDoc_def)
  have v: "localStorage (persistDoc rt t u peer) (storageKey (persistDoc rt t u peer))
             = Some (JSON_stringify rt (doc_object t u))"
    by (simp add: storageKey_def persistDoc_def)
  have h: "handleStorage rt (Some (storageKey ?st')) (Some (JSON_stringify rt (doc_object t u))) ?st'
             = (if js_gt u (lastUpdateRef ?st') then persistDoc rt t u ?st' else ?st')"
    by (rule handleStorage_doc [OF _ _ assms(4,5)])
       (simp_all add: doc_object_def get_def lookup_def)
  show ?thesis using e k v h assms(2)
    by (auto simp: mergeRemote_def persistDoc_def)
qed

theorem channel_unavailable_fallback_witness:
  "\<not> BroadcastChannel_ok (demo_runtime\<lparr>BroadcastChannel_ok := \<lambda>name. False\<rparr>)
        (''room-channel:'' @ roomId demo_workspace) \<and>
   channel_effect (demo_runtime\<lparr>BroadcastChannel_ok := \<lambda>name. False\<rparr>) demo_workspace
     = Inr demo_workspace \<and>
   docState (handleStorage (demo_runtime\<lparr>BroadcastChannel_ok := \<lambda>name. False\<rparr>)
       (Some (storageKey demo_workspace))
       (localStorage (persistDoc (demo_runtime\<lparr>BroadcastChannel_ok := \<lambda>name. False\<rparr>)
                        ''hi'' (Num 7) demo_workspace) (storageKey demo_workspace))
       demo_workspace)
     = \<lparr>doc_text = ''hi'', updatedAt = Num 7\<rparr>"
  using channel_unavailable_fallback
    [of "demo_runtime\<lparr>BroadcastChannel_ok := \<lambda>name. False\<rparr>" demo_workspace demo_workspace
        "''hi''" "Num 7"]
  by (simp add: demo_runtime_def demo_parse_def demo_stringify_def doc_object_def
        demo_workspace_def persistDoc_def storageKey_def mergeRemote_def)

section \<open>The presence registry\<close>



lemma map_of_filter_distinct:
  "distinct (map fst xs) \<Longrightarrow>
   map_of (filter (\<lambda>(k, e). P e) xs) k =
     (case map_of xs k of None \<Rightarrow> None | Some e \<Rightarrow> if P e then Some e else None)"
proof (induction xs)
  case Nil
  then show ?case by simp
next
  case (Cons x xs)
  obtain k' e' where x: "x = (k', e')" by (cases x)
  have "k' \<notin> fst ` set xs" using Cons.prems x by auto
  then have "map_of xs k' = None" by (simp add: map_of_eq_None_iff)
  then show ?case using Cons x by (auto split: option.splits)
qed





lemma snapshot_entries_object [simp]: "snapshot_entries (JObject ps) = ps"
  by (simp add: snapshot_entries_def coalesce_def)






text \<open>
  Claim C8. A presence message with action \<^verbatim>\<open>leave\<close> for a user (with a non-empty id)
  removes the entry of the user from the registry and from the persisted snapshot at
  once: whatever the state, the entry's \<^verbatim>\<open>lastSeen\<close> and the time, and without the
  timer.
\<close>

theorem leave_removes_user:
  assumes "uid \<noteq> []"
    and "get payload ''type'' = JString ''presence''"
    and "get payload ''action'' = JString ''leave''"
    and "get (get payload ''user'') ''id'' = JString uid"
    and "window_defined rt"
  shows "\<exists>st'. onmessage rt seen now payload st = Inr st' \<and>
           map_of (presence st') uid = None \<and>
           uid \<notin> fst ` set (presence st') \<and>
           localStorage st' (presenceStorageKey st)
             = Some (JSON_stringify rt (JObject (presence st')))"
proof -
  let ?st' = "upsertPresence rt now (JString uid) (Entry JNull) st"
  have p: "truthy payload" "\<not> nullish payload"
    using get_defined [of payload "''type''"] assms(2) by auto
  have u: "\<not> nullish (get payload ''user'')"
    using get_defined [of "get payload ''user''" "''id''"] assms(4) by auto
  have m: "onmessage rt seen now payload st = Inr ?st'"
    using p u assms(1-4)
    by (simp add: onmessage_def member_of_def handlePresenceMessage_def opt_member_def Let_def)
  have pr: "presence ?st' =
              prunePresenceSnapshot rt now (JObject (AList.delete uid (presence st)))"
    using assms(1) by (simp add: upsertPresence_def upsert_next_def Let_def)
  have k: "uid \<notin> fst ` set (presence ?st')"
  proof
    assume "uid \<in> fst ` set (presence ?st')"
    then obtain e where "(uid, e) \<in> set (presence ?st')" by auto
    then have "(uid, e) \<in> set (AList.delete uid (presence st))"
      using prune_subset [of uid e rt now "JObject (AList.delete uid (presence st))"] pr
      by (simp add: snapshot_entries_def coalesce_def)
    then show False using delete_notin_dom [of uid "presence st"] by force
  qed
  have s: "localStorage ?st' (presenceStorageKey st)
             = Some (JSON_stringify rt (JObject (presence ?st')))"
    using assms(1,5) by (simp add: upsertPresence_def Let_def persistPresenceSnapshot_def)
  show ?thesis using m k s by (auto simp: map_of_eq_None_iff)
qed

theorem leave_removes_user_witness:
  "''u1'' \<noteq> [] \<and> window_defined demo_runtime \<and>
   get (JObject [(''type'', JString ''presence''), (''action'', JString ''leave''),
                 (''user'', demo_user ''u1'')]) ''type'' = JString ''presence'' \<and>
   get (JObject [(''type'', JString ''presence''), (''action'', JString ''leave''),
                 (''user'', demo_user ''u1'')]) ''action'' = JString ''leave'' \<and>
   get (get (JObject [(''type'', JString ''presence''), (''action'', JString ''leave''),
                      (''user'', demo_user ''u1'')]) ''user'') ''id'' = JString ''u1'' \<and>
   map_of (presence (demo_workspace\<lparr>presence := [(''u1'', demo_entry ''u1'' 1000)]\<rparr>)) ''u1''
     = Some (demo_entry ''u1'' 1000) \<and>
   (\<exists>st'. onmessage demo_runtime 1500 1500
             (JObject [(''type'', JString ''presence''), (''action'', JString ''leave''),
                       (''user'', demo_user ''u1'')])
             (demo_workspace\<lparr>presence := [(''u1'', demo_entry ''u1'' 1000)]\<rparr>) = Inr st' \<and>
          presence st' = [] \<and>
          localStorage st' ''room-presence:r1'' = Some ''{}'')"
  using leave_removes_user
    [of "''u1''" "JObject [(''type'', JString ''presence''), (''action'', JString ''leave''),
                          (''user'', demo_user ''u1'')]" demo_runtime 1500 1500
        "demo_workspace\<lparr>presence := [(''u1'', demo_entry ''u1'' 1000)]\<rparr>"]
  by (simp add: demo_runtime_def demo_workspace_def demo_entry_def demo_user_def demo_stringify_def
        onmessage_def handlePresenceMessage_def member_of_def
        upsertPresence_def upsert_next_def prunePresenceSnapshot_def persistPresenceSnapshot_def
        presenceStorageKey_def buildPresenceKey_def PRESENCE_STORAGE_PREFIX_def
        snapshot_entries_def coalesce_def keeps_def opt_member_def get_def lookup_def Let_def
        doc_object_def)

section \<open>Expiry by the timer\<close>

lemma filter_same_length: "length (filter P xs) = length xs \<Longrightarrow> filter P xs = xs"
  by (metis filter_True length_filter_less less_irrefl)

lemma prune_tick_presence:
  assumes "distinct (map fst (presence st))"
  shows "presence (prune_tick rt tick st) = filter (\<lambda>(k, e). keeps rt tick e) (presence st)"
proof -
  have f: "prunePresenceSnapshot rt tick (JObject (presence st)) =
             filter (\<lambda>(k, e). keeps rt tick e) (presence st)"
    using prune_filter [of "JObject (presence st)" rt tick] assms by simp
  show ?thesis
    using filter_same_length [of "\<lambda>(k, e). keeps rt tick e" "presence st"]
    by (auto simp: prune_tick_def Let_def f)
qed

lemma run_ticks_presence:
  "distinct (map fst (presence st)) \<Longrightarrow>
   presence (run_ticks rt ticks st) =
     filter (\<lambda>(k, e). \<forall>tick \<in> set ticks. keeps rt tick e) (presence st)"
proof (induction ticks arbitrary: st)
  case Nil
  then show ?case by (simp add: run_ticks_def)
next
  case (Cons t ticks)
  have p: "presence (prune_tick rt t st) = filter (\<lambda>(k, e). keeps rt t e) (presence st)"
    using Cons.prems by (rule prune_tick_presence)
  have d: "distinct (map fst (presence (prune_tick rt t st)))"
    unfolding p using Cons.prems by (simp add: distinct_map_filter)
  have "presence (run_ticks rt (t # ticks) st) = presence (run_ticks rt ticks (prune_tick rt t st))"
    by (simp add: run_ticks_def)
  also have "\<dots> = filter (\<lambda>(k, e). \<forall>tick \<in> set ticks. keeps rt tick e)
                     (filter (\<lambda>(k, e). keeps rt t e) (presence st))"
    using Cons.IH [OF d] p by simp
  also have "\<dots> = filter (\<lambda>(k, e). \<forall>tick \<in> set (t # ticks). keeps rt tick e) (presence st)"
    by (auto intro: filter_cong)
  finally show ?case .
qed

lemma keeps_timestamp:
  assumes "get e ''lastSeen'' = JNumber (Num t)" and "t \<noteq> 0"
  shows "keeps rt now e \<longleftrightarrow> now - t \<le> 45000"
proof -
  have "\<not> nullish e" using get_defined [of e "''lastSeen''"] assms(1) by auto
  then show ?thesis using assms by (simp add: keeps_def opt_member_def PRESENCE_TTL_MS_def)
qed

lemma index_le_int: "1 \<le> i \<Longrightarrow> i < Suc (nat x) \<Longrightarrow> int i \<le> x"
  by arith

lemma index_in_range: "int i \<le> y \<Longrightarrow> i < Suc (nat y)"
  by arith

lemma le_div_ttl: "(i::int) \<le> x div 45000 \<Longrightarrow> 45000 * i \<le> x"
  by linarith

lemma div_ttl_plus_two: "(d::int) + 90000 \<le> x \<Longrightarrow> d div 45000 + 2 \<le> x div 45000"
  by simp

lemma next_tick_late: "0 \<le> (d::int) \<Longrightarrow> d + 45000 < 45000 * (d div 45000 + 2)"
  by simp

lemma ticks_between_bounds:
  assumes "tick \<in> set (ticks_between mounted t q)"
  shows "t < tick \<and> tick \<le> q"
proof -
  obtain i where i: "i < Suc (nat ((q - mounted) div 45000))"
      "tick = mounted + 45000 * int i" "t < tick" and i1: "1 \<le> i"
    using assms by (auto simp: ticks_between_def PRESENCE_TTL_MS_def)
  have "int i \<le> (q - mounted) div 45000" using i1 i(1) by (rule index_le_int)
  then have "45000 * int i \<le> q - mounted" by (rule le_div_ttl)
  then show ?thesis using i by simp
qed

lemma ticks_between_late:
  assumes "mounted \<le> t" and "t + 90000 \<le> q"
  shows "\<exists>tick \<in> set (ticks_between mounted t q). tick - t > 45000"
proof -
  define d where "d = t - mounted"
  define n where "n = d div 45000"
  define i where "i = nat (n + 2)"
  define tick where "tick = mounted + 45000 * int i"
  have d: "0 \<le> d" using assms(1) by (simp add: d_def)
  have n: "0 \<le> n" using d by (simp add: n_def pos_imp_zdiv_nonneg_iff)
  have i: "int i = n + 2" using n by (simp add: i_def)
  have w: "d + 45000 < 45000 * (n + 2)" unfolding n_def using d by (rule next_tick_late)
  have "d + 90000 \<le> q - mounted" using assms(2) by (simp add: d_def)
  then have "n + 2 \<le> (q - mounted) div 45000" unfolding n_def by (rule div_ttl_plus_two)
  then have "int i \<le> (q - mounted) div 45000" using i by simp
  then have hi: "i < Suc (nat ((q - mounted) div 45000))" by (rule index_in_range)
  have lo: "1 \<le> i" using n by (simp add: i_def)
  have late: "tick - t > 45000" using w i by (simp add: tick_def d_def)
  then have "t < tick" by simp
  then have "tick \<in> set (ticks_between mounted t q)"
    using hi lo by (auto simp: ticks_between_def PRESENCE_TTL_MS_def tick_def)
  then show ?thesis using late by blast
qed

lemma set_insert_by: "set (insert_by cmp x ys) = insert x (set ys)"
  by (induction ys) auto

lemma set_sort_by: "set (sort_by cmp xs) = set xs"
  by (induction xs) (auto simp: sort_by_def set_insert_by)

lemma set_presenceList:
  "set (presenceList rt st) =
     {e \<in> snd ` set (presence st). truthy (opt_member (opt_member e ''user'') ''id'')}"
  by (auto simp: presenceList_def set_sort_by)


text \<open>
  Claim C9, as amended. An entry of user U with \<^verbatim>\<open>lastSeen\<close> \<open>t\<close> (not 0) is in the
  registry of a replica whose timer was started at \<open>mounted \<le> t\<close>; nothing happens
  afterwards but the firings of the timer. Then at every query time \<open>q \<le> t + 45000\<close> the
  entry is in the presence state and in the rendered list, and at every query time
  \<open>q \<ge> t + 90000\<close> it is gone. In between it is gone exactly when a firing of the timer
  has fallen later than \<open>t + 45000\<close>: the list is computed from the presence state
  without looking at the clock, so until that firing the expired entry stays exposed.
\<close>

theorem presence_expiry_by_timer:
  assumes "distinct (map fst (presence st))"
    and "map_of (presence st) uid = Some e"
    and "get e ''lastSeen'' = JNumber (Num t)" and "t \<noteq> 0"
    and "truthy (opt_member (opt_member e ''user'') ''id'')"
    and "mounted \<le> t"
    and "sq = run_ticks rt (ticks_between mounted t q) st"
  shows "(q \<le> t + 45000 \<longrightarrow>
            map_of (presence sq) uid = Some e \<and> e \<in> set (presenceList rt sq)) \<and>
         (t + 90000 \<le> q \<longrightarrow> map_of (presence sq) uid = None) \<and>
         map_of (presence sq) uid =
           (if \<exists>tick \<in> set (ticks_between mounted t q). tick - t > 45000 then None
            else Some e) \<and>
         set (presenceList rt sq) \<subseteq> snd ` set (presence sq)"
proof -
  let ?ticks = "ticks_between mounted t q"
  have f: "presence sq = filter (\<lambda>(k, e). \<forall>tick \<in> set ?ticks. keeps rt tick e) (presence st)"
    unfolding assms(7) using assms(1) by (rule run_ticks_presence)
  have k: "(\<forall>tick \<in> set ?ticks. keeps rt tick e) \<longleftrightarrow> \<not> (\<exists>tick \<in> set ?ticks. tick - t > 45000)"
    using keeps_timestamp [OF assms(3,4)] by auto
  have m: "map_of (presence sq) uid =
             (if \<exists>tick \<in> set ?ticks. tick - t > 45000 then None else Some e)"
    unfolding f using map_of_filter_distinct [OF assms(1), of "\<lambda>e. \<forall>tick \<in> set ?ticks. keeps rt tick e" uid]
      assms(2) k by simp
  have early: "q \<le> t + 45000 \<longrightarrow> \<not> (\<exists>tick \<in> set ?ticks. tick - t > 45000)"
    using ticks_between_bounds [of _ mounted t q] by fastforce
  have late: "t + 90000 \<le> q \<longrightarrow> (\<exists>tick \<in> set ?ticks. tick - t > 45000)"
    using ticks_between_late [OF assms(6)] by blast
  have c1: "q \<le> t + 45000 \<longrightarrow>
            map_of (presence sq) uid = Some e \<and> e \<in> set (presenceList rt sq)"
  proof
    assume q: "q \<le> t + 45000"
    then have s: "map_of (presence sq) uid = Some e" using m early by simp
    then have "(uid, e) \<in> set (presence sq)" by (rule map_of_SomeD)
    then have "e \<in> snd ` set (presence sq)" by force
    then show "map_of (presence sq) uid = Some e \<and> e \<in> set (presenceList rt sq)"
      using s assms(5) by (simp add: set_presenceList)
  qed
  have c2: "t + 90000 \<le> q \<longrightarrow> map_of (presence sq) uid = None"
    using m late by simp
  have c4: "set (presenceList rt sq) \<subseteq> snd ` set (presence sq)"
    by (auto simp: set_presenceList)
  show ?thesis using c1 c2 m c4 by blast
qed

theorem presence_expiry_by_timer_witness:
  "distinct (map fst (presence (upsertPresence demo_runtime 1000 (JString ''u1'')
                                  (Entry (demo_entry ''u1'' 1000)) demo_workspace))) \<and>
   map_of (presence (upsertPresence demo_runtime 1000 (JString ''u1'')
                        (Entry (demo_entry ''u1'' 1000)) demo_workspace)) ''u1''
     = Some (demo_entry ''u1'' 1000) \<and>
   get (demo_entry ''u1'' 1000) ''lastSeen'' = JNumber (Num 1000) \<and>
   (1000::int) \<noteq> 0 \<and>
   truthy (opt_member (opt_member (demo_entry ''u1'' 1000) ''user'') ''id'') \<and>
   (0::int) \<le> 1000 \<and>
   (1000::int) + 90000 \<le> 100000 \<and>
   ticks_between 0 1000 100000 = [45000, 90000] \<and>
   map_of (presence (run_ticks demo_runtime (ticks_between 0 1000 100000)
                       (upsertPresence demo_runtime 1000 (JString ''u1'')
                          (Entry (demo_entry ''u1'' 1000)) demo_workspace))) ''u1''
     = None"
proof -
  have u: "presence (upsertPresence demo_runtime 1000 (JString ''u1'')
                       (Entry (demo_entry ''u1'' 1000)) demo_workspace)
             = [(''u1'', demo_entry ''u1'' 1000)]"
    by (simp add: demo_runtime_def demo_workspace_def demo_entry_def
        demo_user_def upsertPresence_def upsert_next_def prunePresenceSnapshot_def
        snapshot_entries_def coalesce_def keeps_def opt_member_def get_def lookup_def
        spread_def PRESENCE_TTL_MS_def Let_def)
  have t: "ticks_between 0 1000 100000 = [45000, 90000]"
    by code_simp
  show ?thesis
    using presence_expiry_by_timer
      [of "upsertPresence demo_runtime 1000 (JString ''u1'') (Entry (demo_entry ''u1'' 1000))
             demo_workspace" "''u1''" "demo_entry ''u1'' 1000" 1000 0
          "run_ticks demo_runtime (ticks_between 0 1000 100000)
             (upsertPresence demo_runtime 1000 (JString ''u1'') (Entry (demo_entry ''u1'' 1000))
                demo_workspace)" demo_runtime 100000]
    by (simp add: u t) (simp add: demo_entry_def demo_user_def get_def lookup_def opt_member_def)
qed

text \<open>
  Claim C9 as the specification states it fails: with the timer started at 0, an entry
  created at 1000 is still rendered at time 50000, later than 1000 + 45001; the only
  firing so far, at 45000, found it 44000 ms old.
\<close>

theorem presence_exposed_after_ttl_counterexample:
  "(1000::int) + 45001 \<le> 50000 \<and>
   get (demo_entry ''u1'' 1000) ''lastSeen'' = JNumber (Num 1000) \<and>
   ticks_between 0 1000 50000 = [45000] \<and>
   presenceList demo_runtime
     (run_ticks demo_runtime (ticks_between 0 1000 50000)
        (upsertPresence demo_runtime 1000 (JString ''u1'') (Entry (demo_entry ''u1'' 1000))
           demo_workspace))
     = [demo_entry ''u1'' 1000]"
proof -
  have t: "ticks_between 0 1000 50000 = [45000]"
    by code_simp
  show ?thesis
    unfolding t
    by (simp add: demo_runtime_def demo_workspace_def demo_entry_def
        demo_user_def upsertPresence_def upsert_next_def prunePresenceSnapshot_def
        snapshot_entries_def coalesce_def keeps_def opt_member_def get_def lookup_def
        spread_def PRESENCE_TTL_MS_def Let_def run_ticks_def prune_tick_def presenceList_def
        sort_by_def)
qed

section \<open>The states a replica reaches\<close>

text \<open>
  The theorems above assume of a state that the ref equals the document's timestamp and
  that the presence snapshot has distinct keys. Both hold after the mount and are kept by
  every handler.
\<close>

lemma mount_inv: "workspace_inv (mount rt now room storage)"
  by (simp add: workspace_inv_def mount_def Let_def readPresenceSnapshot_def prune_distinct
        split: option.splits)

lemma persistDoc_inv: "workspace_inv st \<Longrightarrow> workspace_inv (persistDoc rt t u st)"
  by (simp add: workspace_inv_def persistDoc_def)

lemma upsertPresence_inv:
  "workspace_inv st \<Longrightarrow> workspace_inv (upsertPresence rt now userId entryOrUpdater st)"
  by (simp add: workspace_inv_def upsertPresence_def Let_def prune_distinct)

lemma prune_tick_inv: "workspace_inv st \<Longrightarrow> workspace_inv (prune_tick rt now st)"
  by (simp add: workspace_inv_def prune_tick_def Let_def prune_distinct)

lemma handlePresenceStorage_inv:
  "workspace_inv st \<Longrightarrow> workspace_inv (handlePresenceStorage rt now k v st)"
  by (simp add: workspace_inv_def handlePresenceStorage_def Let_def prune_distinct
        split: option.splits)

lemma handleStorage_inv: "workspace_inv st \<Longrightarrow> workspace_inv (handleStorage rt k v st)"
  by (auto simp: handleStorage_def handleStorage_try_def persistDoc_inv
        split: option.splits sum.splits jsval.splits if_splits)

lemma channel_effect_inv:
  "workspace_inv st \<Longrightarrow> channel_effect rt st = Inr st' \<Longrightarrow> workspace_inv st'"
  by (auto simp: workspace_inv_def channel_effect_def channel_effect_try_def Let_def
        split: if_splits)

lemma onmessage_inv:
  "workspace_inv st \<Longrightarrow> onmessage rt seen now payload st = Inr st' \<Longrightarrow> workspace_inv st'"
  by (auto simp: onmessage_def handlePresenceMessage_def Let_def persistDoc_inv
        upsertPresence_inv split: if_splits sum.splits jsval.splits)

end
